theory Spec2Isabelle
  imports Main
begin

section \<open>The casbin middleware of echo-contrib: data model\<close>

text \<open>
  The package \<^verbatim>\<open>casbin\<close> (file \<^verbatim>\<open>casbin/casbin.go\<close>) is an echo middleware: it
  reads a subject from the request, takes the URL path and the HTTP method, and asks a
  casbin enforcer whether the triple is allowed.

  The embedding keeps the names of the source. What the code does beyond returning a
  value is explicit: a run-time panic is the left summand of the result, and the calls
  that leave the package in an observable way (\<^verbatim>\<open>log.Printf\<close>, \<^verbatim>\<open>Enforcer.Enforce\<close>)
  are recorded, in order, in a list of events.
\<close>

subsection \<open>Authentication type\<close>

text \<open>\<^verbatim>\<open>type AuthenticationType int\<close> with the two \<^verbatim>\<open>iota\<close> constants. Any other
  integer is a value of the type as well.\<close>

type_synonym AuthenticationType = int

definition BasicAuth :: AuthenticationType where
  "BasicAuth = 0"

definition JwtAuth :: AuthenticationType where
  "JwtAuth = 1"

subsection \<open>Requests and contexts\<close>

text \<open>The parts of \<^verbatim>\<open>net/http\<close>'s \<^verbatim>\<open>Request\<close> and \<^verbatim>\<open>url.URL\<close> that a handler
  can tell apart. \<^verbatim>\<open>Header\<close> is Go's \<^verbatim>\<open>map[string][]string\<close>.\<close>

record url =
  Path :: string
  RawQuery :: string

record request =
  Method :: string
  URL :: url
  Header :: "string \<rightharpoonup> string list"

record Context =
  Request :: request

text \<open>\<^verbatim>\<open>Header.Get(key)\<close>: the first value stored under the key, \<^verbatim>\<open>""\<close> when there
  is none. Go canonicalises the key first; the only key the package asks for,
  \<^verbatim>\<open>"Authorization"\<close>, is already canonical.\<close>

definition Get :: "(string \<rightharpoonup> string list) \<Rightarrow> string \<Rightarrow> string" where
  "Get h key = (case h key of None \<Rightarrow> [] | Some [] \<Rightarrow> [] | Some (v # _) \<Rightarrow> v)"

subsection \<open>JWT claims\<close>

text \<open>\<^verbatim>\<open>type jwtClaims struct\<close>: seven string fields; \<^verbatim>\<open>&jwtClaims{}\<close> is the zero
  value.\<close>

record jwtClaims =
  Iss :: string
  Sub :: string
  Aud :: string
  Exp :: string
  Nbf :: string
  Iat :: string
  Jti :: string

definition jwtClaims_zero :: jwtClaims where
  "jwtClaims_zero = \<lparr>Iss = [], Sub = [], Aud = [], Exp = [], Nbf = [], Iat = [], Jti = []\<rparr>"

subsection \<open>Panics, events, errors\<close>

text \<open>A run-time panic of the Go program. \<^verbatim>\<open>IndexOutOfRange i n\<close> is
  \<^verbatim>\<open>index out of range [i] with length n\<close>; \<^verbatim>\<open>NilFuncCall\<close> is the call of a nil
  function value; \<^verbatim>\<open>OtherPanic\<close> is a panic raised outside the package.\<close>

datatype panic = IndexOutOfRange nat nat | NilFuncCall | OtherPanic string

text \<open>What the package does to the world outside: a line given to \<^verbatim>\<open>log.Printf\<close>
  (the formatted message), and a call of the enforcer's \<^verbatim>\<open>Enforce\<close> with its
  arguments in order.\<close>

datatype event = LogPrintf string | EnforceCall "string list"

text \<open>A non-nil Go \<^verbatim>\<open>error\<close> as a handler returns it: echo's \<^verbatim>\<open>*HTTPError\<close> with
  its code and message, or any other error, known by its \<^verbatim>\<open>Error()\<close> text.\<close>

datatype error = HTTPError int string | OtherError string

text \<open>A computation: the events it emits, then a panic or a value.\<close>

type_synonym 'a eff = "event list \<times> (panic + 'a)"

definition ret :: "'a \<Rightarrow> 'a eff" where
  "ret x = ([], Inr x)"

definition andThen :: "'a eff \<Rightarrow> ('a \<Rightarrow> 'b eff) \<Rightarrow> 'b eff" where
  "andThen m f =
     (case m of
        (ev, Inl p) \<Rightarrow> (ev, Inl p)
      | (ev, Inr x) \<Rightarrow> (case f x of (ev', r) \<Rightarrow> (ev @ ev', r)))"

text \<open>\<^verbatim>\<open>echo.HandlerFunc\<close>: \<^verbatim>\<open>func(echo.Context) error\<close>; \<^verbatim>\<open>None\<close> is the nil error.\<close>

type_synonym HandlerFunc = "Context \<Rightarrow> (error option) eff"

subsection \<open>The libraries the package calls\<close>

text \<open>
  The package calls four functions that live outside the repository. They are taken as
  parameters, collected in one record, and every theorem below holds for all of them:
  \<^item> \<^verbatim>\<open>Enforce\<close>: casbin's \<^verbatim>\<open>(*Enforcer).Enforce(rvals...)\<close>, a function of the
    enforcer the pointer refers to (its model, policy and roles; \<^verbatim>\<open>None\<close> is the nil
    pointer) and of the request values. It returns \<^verbatim>\<open>(bool, error)\<close>, the error known
    by its \<^verbatim>\<open>Error()\<close> text, or panics.
  \<^item> \<^verbatim>\<open>StdEncoding_DecodeString\<close> and \<^verbatim>\<open>RawStdEncoding_DecodeString\<close>: the two
    \<^verbatim>\<open>encoding/base64\<close> decoders, returning the bytes and the error.
  \<^item> \<^verbatim>\<open>Unmarshal\<close>: \<^verbatim>\<open>json.Unmarshal(data, v)\<close> for \<^verbatim>\<open>v\<close> a \<^verbatim>\<open>*jwtClaims\<close>: the
    struct after the call, and the error.
\<close>

record 'e lib =
  Enforce :: "'e option \<Rightarrow> string list \<Rightarrow> panic + (bool \<times> string option)"
  StdEncoding_DecodeString :: "string \<Rightarrow> string \<times> string option"
  RawStdEncoding_DecodeString :: "string \<Rightarrow> string \<times> string option"
  Unmarshal :: "string \<Rightarrow> jwtClaims \<Rightarrow> jwtClaims \<times> string option"

subsection \<open>Configuration\<close>

text \<open>\<^verbatim>\<open>middleware.Skipper\<close> is \<^verbatim>\<open>func(echo.Context) bool\<close> and may be nil;
  \<^verbatim>\<open>Enforcer\<close> is a \<^verbatim>\<open>*casbin.Enforcer\<close> and may be nil.\<close>

record 'e Config =
  Skipper :: "(Context \<Rightarrow> bool) option"
  Enforcer :: "'e option"
  AuthType :: AuthenticationType

text \<open>Modelled from the spec: echo's \<^verbatim>\<open>middleware.DefaultSkipper\<close> belongs to the
  echo framework, not to this package; by default no request is skipped.\<close>

definition DefaultSkipper :: "Context \<Rightarrow> bool" where
  "DefaultSkipper c = False"

text \<open>\<^verbatim>\<open>DefaultConfig = Config{Skipper: middleware.DefaultSkipper}\<close>: the other two
  fields have their zero values. It is a package variable; the embedding takes the value
  the source gives it.\<close>

definition DefaultConfig :: "'e Config" where
  "DefaultConfig = \<lparr>Skipper = Some DefaultSkipper, Enforcer = None, AuthType = 0\<rparr>"

text \<open>\<^verbatim>\<open>http.StatusForbidden\<close>, \<^verbatim>\<open>http.StatusInternalServerError\<close>,
  \<^verbatim>\<open>echo.NewHTTPError(code, message)\<close> and \<^verbatim>\<open>echo.ErrForbidden\<close>, which is
  \<^verbatim>\<open>NewHTTPError(http.StatusForbidden)\<close> with the status text as its message.\<close>

definition StatusForbidden :: int where
  "StatusForbidden = 403"

definition StatusInternalServerError :: int where
  "StatusInternalServerError = 500"

definition NewHTTPError :: "int \<Rightarrow> string \<Rightarrow> error" where
  "NewHTTPError code message = HTTPError code message"

definition ErrForbidden :: error where
  "ErrForbidden = NewHTTPError StatusForbidden ''Forbidden''"

section \<open>Subject extraction\<close>

subsection \<open>Basic authentication\<close>

text \<open>\<^verbatim>\<open>net/http\<close>'s \<^verbatim>\<open>(*Request).BasicAuth\<close> and its helper \<^verbatim>\<open>parseBasicAuth\<close>:
  the header must start with \<^verbatim>\<open>"Basic "\<close> in any letter case, the rest must decode
  with \<^verbatim>\<open>base64.StdEncoding\<close>, and the decoded text must contain a colon; the username
  is what precedes the first colon. Every failure returns \<^verbatim>\<open>("", "", false)\<close>.\<close>

definition lower :: "char \<Rightarrow> char" where
  "lower b = (if 65 \<le> (of_char b :: nat) \<and> (of_char b :: nat) \<le> 90
              then char_of ((of_char b :: nat) + 32) else b)"

definition EqualFold :: "string \<Rightarrow> string \<Rightarrow> bool" where
  "EqualFold s t = (length s = length t \<and> map lower s = map lower t)"

definition Cut :: "string \<Rightarrow> char \<Rightarrow> string \<times> string \<times> bool" where
  "Cut s sep =
     (if sep \<in> set s
      then (takeWhile (\<lambda>b. b \<noteq> sep) s, tl (dropWhile (\<lambda>b. b \<noteq> sep) s), True)
      else (s, [], False))"

definition parseBasicAuth :: "'e lib \<Rightarrow> string \<Rightarrow> string \<times> string \<times> bool" where
  "parseBasicAuth l auth =
     (let prefix = ''Basic '' in
      if length auth < length prefix then ([], [], False)
      else if EqualFold (take (length prefix) auth) prefix
      then
        (case StdEncoding_DecodeString l (drop (length prefix) auth) of
           (c, Some err) \<Rightarrow> ([], [], False)
         | (c, None) \<Rightarrow>
             (case Cut c (CHR '':'') of
                (username, password, ok) \<Rightarrow>
                  if ok then (username, password, True) else ([], [], False)))
      else ([], [], False))"

definition Request_BasicAuth :: "'e lib \<Rightarrow> request \<Rightarrow> string \<times> string \<times> bool" where
  "Request_BasicAuth l r =
     (let auth = Get (Header r) ''Authorization'' in
      if auth = [] then ([], [], False) else parseBasicAuth l auth)"

text \<open>\<^verbatim>\<open>getUserNameBasicAuth\<close>: \<^verbatim>\<open>username, _, _ := c.Request().BasicAuth()\<close>.\<close>

definition getUserNameBasicAuth :: "'e lib \<Rightarrow> 'e Config \<Rightarrow> Context \<Rightarrow> string eff" where
  "getUserNameBasicAuth l a c =
     (case Request_BasicAuth l (Request c) of (username, _, _) \<Rightarrow> ret username)"

subsection \<open>JWT authentication\<close>

text \<open>\<^verbatim>\<open>strings.Split(s, sep)\<close> for a separator of one byte, as the package calls it
  (\<^verbatim>\<open>strings.Split(token, ".")\<close>): the pieces between the separators, one more than
  there are separators.\<close>

fun Split :: "string \<Rightarrow> char \<Rightarrow> string list" where
  "Split [] sep = [[]]"
| "Split (b # s) sep =
     (if b = sep then [] # Split s sep
      else (case Split s sep of
              [] \<Rightarrow> [[b]]
            | piece # pieces \<Rightarrow> (b # piece) # pieces))"

text \<open>\<^verbatim>\<open>getUserNameJwtAuth\<close>. The source indexes \<^verbatim>\<open>splitToken[1]\<close> with no check
  of the length: Go panics when the slice has fewer than two elements. A decoding error
  is given to \<^verbatim>\<open>log.Printf\<close> and the function returns \<^verbatim>\<open>""\<close>; the error of
  \<^verbatim>\<open>json.Unmarshal\<close> is dropped.\<close>

definition getUserNameJwtAuth :: "'e lib \<Rightarrow> 'e Config \<Rightarrow> Context \<Rightarrow> string eff" where
  "getUserNameJwtAuth l a c =
     (let token = Get (Header (Request c)) ''Authorization'';
          splitToken = Split token (CHR ''.'')
      in if length splitToken \<le> 1
         then ([], Inl (IndexOutOfRange 1 (length splitToken)))
         else
           (let tokenBody = splitToken ! 1 in
            case RawStdEncoding_DecodeString l tokenBody of
              (body, Some err) \<Rightarrow> ([LogPrintf (''token decode failed: '' @ err)], Inr [])
            | (body, None) \<Rightarrow>
                (case Unmarshal l body jwtClaims_zero of
                   (jsonBody, _) \<Rightarrow> ret (Sub jsonBody))))"

subsection \<open>Dispatch on the authentication type\<close>

definition GetUserName :: "'e lib \<Rightarrow> 'e Config \<Rightarrow> Context \<Rightarrow> string eff" where
  "GetUserName l a c =
     (if AuthType a = BasicAuth then getUserNameBasicAuth l a c
      else if AuthType a = JwtAuth then getUserNameJwtAuth l a c
      else ret [])"

section \<open>Permission check and middleware\<close>

text \<open>\<^verbatim>\<open>CheckPermission\<close>: the subject first, then
  \<^verbatim>\<open>a.Enforcer.Enforce(user, path, method)\<close>, whose result is returned as it is.\<close>

definition CheckPermission :: "'e lib \<Rightarrow> 'e Config \<Rightarrow> Context \<Rightarrow> (bool \<times> string option) eff" where
  "CheckPermission l a c =
     andThen (GetUserName l a c) (\<lambda>user.
       let method = Method (Request c);
           path = Path (URL (Request c))
       in ([EnforceCall [user, path, method]], Enforce l (Enforcer a) [user, path, method]))"

text \<open>\<^verbatim>\<open>MiddlewareWithConfig\<close>: a nil skipper is replaced by the default one; then,
  for each request, skip, or check the permission and answer.\<close>

definition MiddlewareWithConfig :: "'e lib \<Rightarrow> 'e Config \<Rightarrow> HandlerFunc \<Rightarrow> HandlerFunc" where
  "MiddlewareWithConfig l config0 next c =
     (let config = (if Skipper config0 = None
                    then config0\<lparr>Skipper := Skipper (DefaultConfig :: 'e Config)\<rparr>
                    else config0)
      in case Skipper config of
           None \<Rightarrow> ([], Inl NilFuncCall)
         | Some skipper \<Rightarrow>
             if skipper c then next c
             else andThen (CheckPermission l config c) (\<lambda>(pass, err).
                    if err = None \<and> pass then next c
                    else (case err of
                            Some msg \<Rightarrow> ret (Some (NewHTTPError StatusInternalServerError msg))
                          | None \<Rightarrow> ret (Some ErrForbidden))))"

text \<open>\<^verbatim>\<open>Middleware\<close>: \<^verbatim>\<open>c := DefaultConfig; c.Enforcer = ce\<close>.\<close>

definition Middleware :: "'e lib \<Rightarrow> 'e option \<Rightarrow> HandlerFunc \<Rightarrow> HandlerFunc" where
  "Middleware l ce =
     (let c = (DefaultConfig :: 'e Config);
          c = c\<lparr>Enforcer := ce\<rparr>
      in MiddlewareWithConfig l c)"

text \<open>The skip predicate in force for a configuration: the configured one, or the
  default one when the field is nil (the first three lines of
  \<^verbatim>\<open>MiddlewareWithConfig\<close>).\<close>

definition skips :: "'e Config \<Rightarrow> Context \<Rightarrow> bool" where
  "skips a c = (case Skipper a of None \<Rightarrow> DefaultSkipper c | Some skipper \<Rightarrow> skipper c)"

section \<open>The methods on the memory they run in\<close>

text \<open>
  The four methods above have the pointer receiver \<^verbatim>\<open>a *Config\<close> and reach the
  request through \<^verbatim>\<open>c.Request()\<close>, again a pointer: both the configuration and the
  request are memory that a method body could write to, and the package variable
  \<^verbatim>\<open>DefaultConfig\<close> is a third. Here the same methods are written as Go runs them:
  each takes the memory and returns its events, its outcome and the memory it leaves.
  A field is read by \<open>load\<close> and would be written by \<open>assign\<close>; each definition
  follows its source statement by statement, and the source has no assignment.
\<close>

record 'e memory =
  receiver :: "'e Config"
  echo_Context :: Context
  DefaultConfig_var :: "'e Config"

type_synonym ('e, 'a) action = "'e memory \<Rightarrow> 'a eff \<times> 'e memory"

definition yield :: "'a \<Rightarrow> ('e, 'a) action" where
  "yield x m = (ret x, m)"

definition load :: "('e memory \<Rightarrow> 'a) \<Rightarrow> ('e, 'a) action" where
  "load f m = (ret (f m), m)"

definition assign :: "('e memory \<Rightarrow> 'e memory) \<Rightarrow> ('e, unit) action" where
  "assign g m = (ret (), g m)"

definition emit :: "event \<Rightarrow> ('e, unit) action" where
  "emit e m = (([e], Inr ()), m)"

definition raise :: "panic \<Rightarrow> ('e, 'a) action" where
  "raise p m = (([], Inl p), m)"

text \<open>A call of the enforcer: the event, and what the library answers for the enforcer
  as it is at the call.\<close>

definition callEnforce :: "'e lib \<Rightarrow> 'e option \<Rightarrow> string list \<Rightarrow> ('e, bool \<times> string option) action" where
  "callEnforce l e rvals m = (([EnforceCall rvals], Enforce l e rvals), m)"

definition sequ :: "('e, 'a) action \<Rightarrow> ('a \<Rightarrow> ('e, 'b) action) \<Rightarrow> ('e, 'b) action" where
  "sequ first rest m =
     (case first m of
        ((ev, Inl p), m') \<Rightarrow> ((ev, Inl p), m')
      | ((ev, Inr x), m') \<Rightarrow>
          (case rest x m' of ((ev', r), m'') \<Rightarrow> ((ev @ ev', r), m'')))"

definition getUserNameBasicAuth_method :: "'e lib \<Rightarrow> ('e, string) action" where
  "getUserNameBasicAuth_method l =
     sequ (load (\<lambda>m. Request_BasicAuth l (Request (echo_Context m))))
       (\<lambda>(username, _, _). yield username)"

definition getUserNameJwtAuth_method :: "'e lib \<Rightarrow> ('e, string) action" where
  "getUserNameJwtAuth_method l =
     sequ (load (\<lambda>m. Get (Header (Request (echo_Context m))) ''Authorization''))
       (\<lambda>token.
          let splitToken = Split token (CHR ''.'')
          in if length splitToken \<le> 1
             then raise (IndexOutOfRange 1 (length splitToken))
             else
               (let tokenBody = splitToken ! 1 in
                case RawStdEncoding_DecodeString l tokenBody of
                  (body, Some err) \<Rightarrow>
                    sequ (emit (LogPrintf (''token decode failed: '' @ err))) (\<lambda>_. yield [])
                | (body, None) \<Rightarrow>
                    (case Unmarshal l body jwtClaims_zero of
                       (jsonBody, _) \<Rightarrow> yield (Sub jsonBody))))"

definition GetUserName_method :: "'e lib \<Rightarrow> ('e, string) action" where
  "GetUserName_method l =
     sequ (load (\<lambda>m. AuthType (receiver m)))
       (\<lambda>t. if t = BasicAuth then getUserNameBasicAuth_method l
            else if t = JwtAuth then getUserNameJwtAuth_method l
            else yield [])"

definition CheckPermission_method :: "'e lib \<Rightarrow> ('e, bool \<times> string option) action" where
  "CheckPermission_method l =
     sequ (GetUserName_method l) (\<lambda>user.
     sequ (load (\<lambda>m. Method (Request (echo_Context m)))) (\<lambda>method.
     sequ (load (\<lambda>m. Path (URL (Request (echo_Context m))))) (\<lambda>path.
     sequ (load (\<lambda>m. Enforcer (receiver m))) (\<lambda>enforcer.
       callEnforce l enforcer [user, path, method]))))"

text \<open>Two invocations, one after the other, on the memory the first one leaves; the
  second is not run when the first panics.\<close>

definition twice :: "('e, 'a) action \<Rightarrow> ('e, 'a \<times> 'a) action" where
  "twice f = sequ f (\<lambda>x. sequ f (\<lambda>y. yield (x, y)))"

section \<open>A small world to run the package in\<close>

text \<open>
  The theorems hold for every library. To run the package on concrete requests, the
  examples use stand-ins that answer as the real functions do on the few inputs the
  examples give them:
  \<^item> an enforcer is a list of allowed triples (allowed if and only if listed), or one
    whose evaluation fails with a message; no example calls the nil enforcer;
  \<^item> \<^verbatim>\<open>"YWxpY2U6c2VjcmV0"\<close> is the padded base64 text of \<^verbatim>\<open>alice:secret\<close>;
  \<^item> \<^verbatim>\<open>"eyJzdWIiOiJhbGljZSJ9"\<close> is the unpadded base64 text of
    \<^verbatim>\<open>{"sub":"alice"}\<close>, and \<^verbatim>\<open>"eyJpc3MiOiJpZHAifQ"\<close> that of \<^verbatim>\<open>{"iss":"idp"}\<close>;
  \<^item> \<^verbatim>\<open>"!!!"\<close> is not base64: Go reports
    \<^verbatim>\<open>illegal base64 data at input byte 0\<close>.
  Any other text is refused by the stand-in decoders and parser.
\<close>

datatype example_enforcer = Rules "string list list" | Failing string

definition example_Enforce ::
    "example_enforcer option \<Rightarrow> string list \<Rightarrow> panic + (bool \<times> string option)" where
  "example_Enforce e rvals =
     (case e of
        None \<Rightarrow> Inl (OtherPanic ''nil enforcer'')
      | Some (Rules policy) \<Rightarrow> Inr (rvals \<in> set policy, None)
      | Some (Failing msg) \<Rightarrow> Inr (False, Some msg))"

definition example_StdDecode :: "string \<Rightarrow> string \<times> string option" where
  "example_StdDecode s =
     (if s = ''YWxpY2U6c2VjcmV0'' then (''alice:secret'', None)
      else ([], Some ''illegal base64 data at input byte 0''))"

definition example_RawStdDecode :: "string \<Rightarrow> string \<times> string option" where
  \<open>example_RawStdDecode s =
     (if s = ''eyJzdWIiOiJhbGljZSJ9'' then (''{"sub":"alice"}'', None)
      else if s = ''eyJpc3MiOiJpZHAifQ'' then (''{"iss":"idp"}'', None)
      else ([], Some ''illegal base64 data at input byte 0''))\<close>

definition example_Unmarshal :: "string \<Rightarrow> jwtClaims \<Rightarrow> jwtClaims \<times> string option" where
  \<open>example_Unmarshal data v =
     (if data = ''{"sub":"alice"}'' then (v\<lparr>Sub := ''alice''\<rparr>, None)
      else if data = ''{"iss":"idp"}'' then (v\<lparr>Iss := ''idp''\<rparr>, None)
      else (v, Some ''unexpected end of JSON input''))\<close>

definition example_lib :: "example_enforcer lib" where
  "example_lib =
     \<lparr>Enforce = example_Enforce,
      StdEncoding_DecodeString = example_StdDecode,
      RawStdEncoding_DecodeString = example_RawStdDecode,
      Unmarshal = example_Unmarshal\<rparr>"

text \<open>The policy of the examples: alice may read \<^verbatim>\<open>/data\<close>, and the empty subject
  may read \<^verbatim>\<open>/public\<close>.\<close>

definition example_policy :: example_enforcer where
  "example_policy = Rules [[''alice'', ''/data'', ''GET''], ['''', ''/public'', ''GET'']]"

definition example_config :: "AuthenticationType \<Rightarrow> example_enforcer Config" where
  "example_config t = \<lparr>Skipper = None, Enforcer = Some example_policy, AuthType = t\<rparr>"

text \<open>A request with the given method and path, and the given values of the
  \<^verbatim>\<open>Authorization\<close> header (none when the list is empty).\<close>

definition example_request :: "string \<Rightarrow> string \<Rightarrow> string list \<Rightarrow> Context" where
  "example_request m p auth =
     \<lparr>Request = \<lparr>Method = m, URL = \<lparr>Path = p, RawQuery = []\<rparr>,
        Header = (if auth = [] then Map.empty else [''Authorization'' \<mapsto> auth])\<rparr>\<rparr>"

text \<open>A next handler that succeeds and does nothing else.\<close>

definition example_next :: HandlerFunc where
  "example_next c = ret None"

text \<open>The memory of a run: a configuration, a request, and the package variable with
  the value the source gives it.\<close>

definition example_memory :: "example_enforcer Config \<Rightarrow> Context \<Rightarrow> example_enforcer memory" where
  "example_memory a c = \<lparr>receiver = a, echo_Context = c, DefaultConfig_var = DefaultConfig\<rparr>"

text \<open>A request with a cookie and a query beside alice's basic credentials.\<close>

definition example_busy_request :: Context where
  "example_busy_request =
     \<lparr>Request = \<lparr>Method = ''GET'', URL = \<lparr>Path = ''/data'', RawQuery = ''page=1''\<rparr>,
        Header = [''Authorization'' \<mapsto> [''Basic YWxpY2U6c2VjcmV0''],
                  ''Cookie'' \<mapsto> [''a=b'']]\<rparr>\<rparr>"

lemmas example_defs =
  example_lib_def example_Enforce_def example_StdDecode_def example_RawStdDecode_def
  example_Unmarshal_def example_policy_def example_config_def example_request_def
  example_next_def

lemmas package_defs =
  MiddlewareWithConfig_def CheckPermission_def GetUserName_def getUserNameJwtAuth_def
  getUserNameBasicAuth_def Request_BasicAuth_def parseBasicAuth_def EqualFold_def Cut_def
  Get_def andThen_def ret_def BasicAuth_def JwtAuth_def jwtClaims_zero_def
  DefaultConfig_def DefaultSkipper_def NewHTTPError_def ErrForbidden_def
  StatusForbidden_def StatusInternalServerError_def

section \<open>Splitting at a separator\<close>

lemma Split_not_Nil: "Split s sep \<noteq> []"
  by (induction s) (auto split: list.splits)

lemma length_Split: "length (Split s sep) = Suc (length (filter (\<lambda>b. b = sep) s))"
  by (induction s) (auto simp: Split_not_Nil split: list.splits)

lemma Split_no_sep: "sep \<notin> set s \<Longrightarrow> Split s sep = [s]"
  by (induction s) auto

lemma Split_short_iff: "length (Split s sep) \<le> 1 \<longleftrightarrow> sep \<notin> set s"
  by (auto simp: length_Split filter_empty_conv)

section \<open>What subject extraction returns\<close>

lemma getUserNameJwtAuth_no_dot:
  assumes "CHR ''.'' \<notin> set (Get (Header (Request c)) ''Authorization'')"
  shows "getUserNameJwtAuth l a c = ([], Inl (IndexOutOfRange 1 1))"
  using assms by (simp add: getUserNameJwtAuth_def Split_no_sep)

lemma getUserNameJwtAuth_segments:
  assumes "Split (Get (Header (Request c)) ''Authorization'') (CHR ''.'') = s0 # tokenBody # rest"
  shows "getUserNameJwtAuth l a c =
           (case RawStdEncoding_DecodeString l tokenBody of
              (body, Some err) \<Rightarrow> ([LogPrintf (''token decode failed: '' @ err)], Inr [])
            | (body, None) \<Rightarrow> ([], Inr (Sub (fst (Unmarshal l body jwtClaims_zero)))))"
  using assms
  by (auto simp: getUserNameJwtAuth_def ret_def Let_def split: prod.splits option.splits)

lemma getUserNameJwtAuth_returns_iff:
  "(\<exists>ev user. getUserNameJwtAuth l a c = (ev, Inr user)) \<longleftrightarrow>
     CHR ''.'' \<in> set (Get (Header (Request c)) ''Authorization'')"
proof (cases "CHR ''.'' \<in> set (Get (Header (Request c)) ''Authorization'')")
  case False
  then show ?thesis by (simp add: getUserNameJwtAuth_no_dot)
next
  case True
  then have "\<not> length (Split (Get (Header (Request c)) ''Authorization'') (CHR ''.'')) \<le> 1"
    using Split_short_iff by blast
  with True show ?thesis
    by (auto simp: getUserNameJwtAuth_def ret_def Let_def split: prod.splits option.splits)
qed

lemma Request_BasicAuth_not_ok:
  "Request_BasicAuth l r = (username, password, False) \<Longrightarrow> username = []"
  by (auto simp: Request_BasicAuth_def parseBasicAuth_def Let_def
      split: if_splits prod.splits option.splits)

lemma GetUserName_BasicAuth:
  "AuthType a = BasicAuth \<Longrightarrow>
     GetUserName l a c = ([], Inr (fst (Request_BasicAuth l (Request c))))"
  by (simp add: GetUserName_def getUserNameBasicAuth_def ret_def split: prod.splits)

lemma GetUserName_JwtAuth:
  "AuthType a = JwtAuth \<Longrightarrow> GetUserName l a c = getUserNameJwtAuth l a c"
  by (simp add: GetUserName_def BasicAuth_def JwtAuth_def)

lemma GetUserName_other:
  "AuthType a \<noteq> BasicAuth \<Longrightarrow> AuthType a \<noteq> JwtAuth \<Longrightarrow> GetUserName l a c = ([], Inr [])"
  by (simp add: GetUserName_def ret_def)

section \<open>What the permission check and the middleware do with it\<close>

lemma CheckPermission_forwards:
  assumes "GetUserName l a c = (ev, Inr user)"
  shows "CheckPermission l a c =
           (ev @ [EnforceCall [user, Path (URL (Request c)), Method (Request c)]],
            Enforce l (Enforcer a) [user, Path (URL (Request c)), Method (Request c)])"
  using assms by (simp add: CheckPermission_def andThen_def Let_def)

lemma CheckPermission_panics:
  assumes "GetUserName l a c = (ev, Inl p)"
  shows "CheckPermission l a c = (ev, Inl p)"
  using assms by (simp add: CheckPermission_def andThen_def)

lemma GetUserName_Skipper: "GetUserName l (a\<lparr>Skipper := s\<rparr>) c = GetUserName l a c"
  by (simp add: GetUserName_def getUserNameBasicAuth_def getUserNameJwtAuth_def)

lemma CheckPermission_Skipper: "CheckPermission l (a\<lparr>Skipper := s\<rparr>) c = CheckPermission l a c"
  by (simp add: CheckPermission_def GetUserName_Skipper)

lemma MiddlewareWithConfig_skipped:
  assumes "skips a c"
  shows "MiddlewareWithConfig l a next c = next c"
  using assms
  by (auto simp: MiddlewareWithConfig_def skips_def DefaultConfig_def DefaultSkipper_def
      split: option.splits)

lemma MiddlewareWithConfig_not_skipped:
  assumes "\<not> skips a c"
  shows "MiddlewareWithConfig l a next c =
           andThen (CheckPermission l a c) (\<lambda>(pass, err).
             if err = None \<and> pass then next c
             else (case err of
                     Some msg \<Rightarrow> ret (Some (NewHTTPError StatusInternalServerError msg))
                   | None \<Rightarrow> ret (Some ErrForbidden)))"
proof (cases "Skipper a")
  case None
  then show ?thesis
    by (simp add: MiddlewareWithConfig_def DefaultConfig_def DefaultSkipper_def
        CheckPermission_Skipper)
next
  case (Some skipper)
  with assms show ?thesis
    by (simp add: MiddlewareWithConfig_def skips_def)
qed

lemma GetUserName_JwtAuth_decoded:
  assumes "AuthType a = JwtAuth"
    and "Split (Get (Header (Request c)) ''Authorization'') (CHR ''.'') = s0 # tokenBody # rest"
    and "RawStdEncoding_DecodeString l tokenBody = (body, None)"
  shows "GetUserName l a c = ([], Inr (Sub (fst (Unmarshal l body jwtClaims_zero))))"
  using assms by (simp add: GetUserName_JwtAuth getUserNameJwtAuth_segments)

lemma GetUserName_returns_iff:
  "(\<exists>ev user. GetUserName l a c = (ev, Inr user)) \<longleftrightarrow>
     (AuthType a = JwtAuth \<longrightarrow> CHR ''.'' \<in> set (Get (Header (Request c)) ''Authorization''))"
proof (cases "AuthType a = JwtAuth")
  case True
  then show ?thesis
    by (simp add: GetUserName_JwtAuth getUserNameJwtAuth_returns_iff)
next
  case False
  then show ?thesis
    by (cases "AuthType a = BasicAuth") (simp_all add: GetUserName_BasicAuth GetUserName_other)
qed

section \<open>Requests without usable credentials\<close>

lemma anonymous_subject_is_forwarded:
  assumes "(AuthType a = BasicAuth \<and> snd (snd (Request_BasicAuth l (Request c))) = False)
         \<or> (AuthType a = JwtAuth \<and>
              (\<exists>s0 tokenBody rest.
                 Split (Get (Header (Request c)) ''Authorization'') (CHR ''.'') = s0 # tokenBody # rest
                 \<and> (snd (RawStdEncoding_DecodeString l tokenBody) = None \<longrightarrow>
                      Sub (fst (Unmarshal l (fst (RawStdEncoding_DecodeString l tokenBody))
                                  jwtClaims_zero)) = [])))
         \<or> (AuthType a \<noteq> BasicAuth \<and> AuthType a \<noteq> JwtAuth)"
  shows "\<exists>ev. GetUserName l a c = (ev, Inr [])
              \<and> CheckPermission l a c =
                  (ev @ [EnforceCall [[], Path (URL (Request c)), Method (Request c)]],
                   Enforce l (Enforcer a) [[], Path (URL (Request c)), Method (Request c)])"
proof -
  have "\<exists>ev. GetUserName l a c = (ev, Inr [])"
    using assms
  proof (elim disjE conjE exE)
    assume t: "AuthType a = BasicAuth"
      and ok: "snd (snd (Request_BasicAuth l (Request c))) = False"
    obtain u p where r: "Request_BasicAuth l (Request c) = (u, p, False)"
      using ok by (cases "Request_BasicAuth l (Request c)") auto
    then have "u = []"
      by (rule Request_BasicAuth_not_ok)
    with t r show ?thesis
      by (simp add: GetUserName_BasicAuth)
  next
    fix s0 tokenBody rest
    assume t: "AuthType a = JwtAuth"
      and s: "Split (Get (Header (Request c)) ''Authorization'') (CHR ''.'') = s0 # tokenBody # rest"
      and d: "snd (RawStdEncoding_DecodeString l tokenBody) = None \<longrightarrow>
                Sub (fst (Unmarshal l (fst (RawStdEncoding_DecodeString l tokenBody))
                            jwtClaims_zero)) = []"
    show ?thesis
      using t d
      by (cases "RawStdEncoding_DecodeString l tokenBody")
         (auto simp: GetUserName_JwtAuth getUserNameJwtAuth_segments [OF s]
            split: option.splits)
  next
    assume "AuthType a \<noteq> BasicAuth" and "AuthType a \<noteq> JwtAuth"
    then show ?thesis
      by (simp add: GetUserName_other)
  qed
  then show ?thesis
    by (auto simp: CheckPermission_forwards)
qed

section \<open>The methods leave the memory as they find it\<close>

text \<open>Each method on the memory returns what the function of the same name returns on the
  configuration and the request it finds there, and returns the memory unchanged.\<close>

lemma getUserNameBasicAuth_method_eq:
  "getUserNameBasicAuth_method l m = (getUserNameBasicAuth l (receiver m) (echo_Context m), m)"
  by (simp add: getUserNameBasicAuth_method_def getUserNameBasicAuth_def sequ_def load_def
      yield_def ret_def split: prod.splits)

lemma getUserNameJwtAuth_method_eq:
  "getUserNameJwtAuth_method l m = (getUserNameJwtAuth l (receiver m) (echo_Context m), m)"
  by (simp add: getUserNameJwtAuth_method_def getUserNameJwtAuth_def sequ_def load_def
      yield_def emit_def raise_def ret_def Let_def split: prod.splits option.splits)

lemma GetUserName_method_eq:
  "GetUserName_method l m = (GetUserName l (receiver m) (echo_Context m), m)"
  by (simp add: GetUserName_method_def GetUserName_def sequ_def load_def yield_def ret_def
      getUserNameBasicAuth_method_eq getUserNameJwtAuth_method_eq split: prod.splits sum.splits)

lemma CheckPermission_method_eq:
  "CheckPermission_method l m = (CheckPermission l (receiver m) (echo_Context m), m)"
  by (simp add: CheckPermission_method_def CheckPermission_def andThen_def sequ_def load_def
      callEnforce_def ret_def Let_def GetUserName_method_eq split: prod.splits sum.splits)

lemma CheckPermission_reads_only:
  assumes "AuthType a1 = AuthType a2"
    and "Enforcer a1 = Enforcer a2"
    and "Get (Header (Request c1)) ''Authorization'' = Get (Header (Request c2)) ''Authorization''"
    and "Path (URL (Request c1)) = Path (URL (Request c2))"
    and "Method (Request c1) = Method (Request c2)"
  shows "CheckPermission l a1 c1 = CheckPermission l a2 c2"
proof -
  have "GetUserName l a1 c1 = GetUserName l a2 c2"
    using assms
    by (simp add: GetUserName_def getUserNameBasicAuth_def getUserNameJwtAuth_def
        Request_BasicAuth_def)
  with assms show ?thesis
    by (simp add: CheckPermission_def)
qed

lemma twice_unchanged:
  assumes "\<And>m. snd (f m) = m"
  shows "twice f m =
           (case fst (f m) of
              (ev, Inl p) \<Rightarrow> ((ev, Inl p), m)
            | (ev, Inr r) \<Rightarrow> ((ev @ ev, Inr (r, r)), m))"
proof -
  have f: "f m = (fst (f m), m)"
    using assms [of m] by (cases "f m") simp
  obtain ev r where e: "fst (f m) = (ev, r)"
    by (cases "fst (f m)") auto
  show ?thesis
  proof (cases r)
    case (Inl p)
    with e f have "f m = ((ev, Inl p), m)" by simp
    with e Inl show ?thesis
      by (simp add: twice_def sequ_def)
  next
    case (Inr x)
    with e f have "f m = ((ev, Inr x), m)" by simp
    with e Inr show ?thesis
      by (simp add: twice_def sequ_def yield_def ret_def)
  qed
qed

text \<open>The memory is not decoration: when the receiver is written to between two
  invocations, the second one sees it. Here the authentication type is set to
  \<^verbatim>\<open>JwtAuth\<close> after a first check of an anonymous request, and the second check panics
  where the first had asked the enforcer.\<close>

lemma example_assignment_is_observed:
  "fst (sequ (CheckPermission_method example_lib) (\<lambda>x.
        sequ (assign (\<lambda>m. m\<lparr>receiver := (receiver m)\<lparr>AuthType := JwtAuth\<rparr>\<rparr>)) (\<lambda>_.
        sequ (CheckPermission_method example_lib) (\<lambda>y. yield (x, y))))
         (example_memory (example_config BasicAuth) (example_request ''GET'' ''/public'' [])))
     = ([EnforceCall ['''', ''/public'', ''GET'']], Inl (IndexOutOfRange 1 1))"
  by (simp add: CheckPermission_method_eq sequ_def assign_def yield_def example_memory_def
      package_defs example_defs)

section \<open>The package at work\<close>

text \<open>Three runs in the small world. Alice's token is
  \<^verbatim>\<open>Bearer eyJhbGciOiJIUzI1NiJ9.eyJzdWIiOiJhbGljZSJ9.c2ln\<close>: its second piece is the
  claim set \<^verbatim>\<open>{"sub":"alice"}\<close>. She may read \<^verbatim>\<open>/data\<close> and may not post to it; with
  basic authentication the username of \<^verbatim>\<open>alice:secret\<close> is the subject.\<close>

lemma example_Split:
  "Split ''Bearer eyJhbGciOiJIUzI1NiJ9.eyJzdWIiOiJhbGljZSJ9.c2ln'' (CHR ''.'')
     = [''Bearer eyJhbGciOiJIUzI1NiJ9'', ''eyJzdWIiOiJhbGljZSJ9'', ''c2ln'']"
  by simp

lemma example_jwt_allowed:
  "MiddlewareWithConfig example_lib (example_config JwtAuth) example_next
       (example_request ''GET'' ''/data''
          [''Bearer eyJhbGciOiJIUzI1NiJ9.eyJzdWIiOiJhbGljZSJ9.c2ln''])
     = ([EnforceCall [''alice'', ''/data'', ''GET'']], Inr None)"
  by (simp add: package_defs example_defs)

lemma example_jwt_forbidden:
  "MiddlewareWithConfig example_lib (example_config JwtAuth) example_next
       (example_request ''POST'' ''/data''
          [''Bearer eyJhbGciOiJIUzI1NiJ9.eyJzdWIiOiJhbGljZSJ9.c2ln''])
     = ([EnforceCall [''alice'', ''/data'', ''POST'']], Inr (Some (HTTPError 403 ''Forbidden'')))"
  by (simp add: package_defs example_defs)

lemma example_basic_allowed:
  "Middleware example_lib (Some example_policy) example_next
       (example_request ''GET'' ''/data'' [''Basic YWxpY2U6c2VjcmV0''])
     = ([EnforceCall [''alice'', ''/data'', ''GET'']], Inr None)"
  by (simp add: Middleware_def package_defs example_defs)

section \<open>The claims\<close>

text \<open>
  C1. The claim: for every request that is not skipped, \<^verbatim>\<open>CheckPermission\<close>
  forwards the subject, the path and the method, in this order, to \<^verbatim>\<open>Enforce\<close> and
  returns what the enforcer answers. Whenever \<^verbatim>\<open>GetUserName\<close> returns, this is what
  happens (\<open>CheckPermission_forwards\<close>). It does not return for every request: under
  \<^verbatim>\<open>JwtAuth\<close>, for the header \<^verbatim>\<open>Bearer abc\<close>, which has no dot, the panic of
  \<^verbatim>\<open>splitToken[1]\<close> ends \<^verbatim>\<open>CheckPermission\<close> before any call of \<^verbatim>\<open>Enforce\<close>: the
  list of events is empty and no decision is returned, whatever the libraries are.
\<close>

theorem C1_CheckPermission_forwards_nothing_without_dot:
  "CheckPermission l (example_config JwtAuth)
       (example_request ''GET'' ''/data'' [''Bearer abc''])
     = ([], Inl (IndexOutOfRange 1 1))"
  by (simp add: package_defs example_config_def example_request_def)

text \<open>
  C2. For a request that is not skipped, what the middleware returns is decided by what
  \<^verbatim>\<open>CheckPermission\<close> returned, in exactly one of three ways: an error gives the HTTP
  error 500 carrying the error's text, whatever the boolean is; \<^verbatim>\<open>(false, nil)\<close>
  gives the HTTP error 403 \<^verbatim>\<open>Forbidden\<close>; \<^verbatim>\<open>(true, nil)\<close> runs the next handler and
  returns its result. The first two answers differ in their code, so a denial is never an
  internal error and an evaluation error is never a denial.
\<close>

theorem C2_middleware_maps_three_outcomes:
  assumes "\<not> skips a c"
    and "CheckPermission l a c = (ev, Inr (pass, err))"
  shows "MiddlewareWithConfig l a next c =
           (case err of
              Some msg \<Rightarrow> (ev, Inr (Some (HTTPError 500 msg)))
            | None \<Rightarrow>
                if pass then (ev @ fst (next c), snd (next c))
                else (ev, Inr (Some (HTTPError 403 ''Forbidden''))))
         \<and> (\<forall>msg. HTTPError 500 msg \<noteq> HTTPError 403 ''Forbidden'')"
  using assms
  by (cases "next c")
     (simp add: MiddlewareWithConfig_not_skipped andThen_def ret_def NewHTTPError_def
       ErrForbidden_def StatusForbidden_def StatusInternalServerError_def
       split: option.splits)

theorem C2_middleware_maps_three_outcomes_witness:
  "(\<not> skips (example_config BasicAuth) (example_request ''GET'' ''/data'' [])
    \<and> CheckPermission example_lib (example_config BasicAuth)
          (example_request ''GET'' ''/data'' [])
        = ([EnforceCall ['''', ''/data'', ''GET'']], Inr (False, None))
    \<and> MiddlewareWithConfig example_lib (example_config BasicAuth) example_next
          (example_request ''GET'' ''/data'' [])
        = ([EnforceCall ['''', ''/data'', ''GET'']], Inr (Some (HTTPError 403 ''Forbidden''))))
   \<and> (\<not> skips (example_config BasicAuth) (example_request ''GET'' ''/public'' [])
    \<and> CheckPermission example_lib (example_config BasicAuth)
          (example_request ''GET'' ''/public'' [])
        = ([EnforceCall ['''', ''/public'', ''GET'']], Inr (True, None))
    \<and> MiddlewareWithConfig example_lib (example_config BasicAuth) example_next
          (example_request ''GET'' ''/public'' [])
        = ([EnforceCall ['''', ''/public'', ''GET'']], Inr None))
   \<and> (\<not> skips ((example_config BasicAuth)\<lparr>Enforcer := Some (Failing ''unknown function'')\<rparr>)
          (example_request ''GET'' ''/data'' [])
    \<and> CheckPermission example_lib
          ((example_config BasicAuth)\<lparr>Enforcer := Some (Failing ''unknown function'')\<rparr>)
          (example_request ''GET'' ''/data'' [])
        = ([EnforceCall ['''', ''/data'', ''GET'']], Inr (False, Some ''unknown function''))
    \<and> MiddlewareWithConfig example_lib
          ((example_config BasicAuth)\<lparr>Enforcer := Some (Failing ''unknown function'')\<rparr>)
          example_next (example_request ''GET'' ''/data'' [])
        = ([EnforceCall ['''', ''/data'', ''GET'']],
           Inr (Some (HTTPError 500 ''unknown function''))))"
proof -
  have skip1: "\<not> skips (example_config BasicAuth) (example_request ''GET'' ''/data'' [])"
    and skip2: "\<not> skips (example_config BasicAuth) (example_request ''GET'' ''/public'' [])"
    and skip3: "\<not> skips ((example_config BasicAuth)\<lparr>Enforcer := Some (Failing ''unknown function'')\<rparr>)
                   (example_request ''GET'' ''/data'' [])"
    by (simp_all add: skips_def example_config_def DefaultSkipper_def)
  have check1: "CheckPermission example_lib (example_config BasicAuth)
                  (example_request ''GET'' ''/data'' [])
                = ([EnforceCall ['''', ''/data'', ''GET'']], Inr (False, None))"
    by (simp add: package_defs example_defs)
  have check2: "CheckPermission example_lib (example_config BasicAuth)
                  (example_request ''GET'' ''/public'' [])
                = ([EnforceCall ['''', ''/public'', ''GET'']], Inr (True, None))"
    by (simp add: package_defs example_defs)
  have check3: "CheckPermission example_lib
                  ((example_config BasicAuth)\<lparr>Enforcer := Some (Failing ''unknown function'')\<rparr>)
                  (example_request ''GET'' ''/data'' [])
                = ([EnforceCall ['''', ''/data'', ''GET'']], Inr (False, Some ''unknown function''))"
    by (simp add: package_defs example_defs)
  show ?thesis
    using skip1 skip2 skip3 check1 check2 check3
      C2_middleware_maps_three_outcomes [OF skip1 check1, of example_next]
      C2_middleware_maps_three_outcomes [OF skip2 check2, of example_next]
      C2_middleware_maps_three_outcomes [OF skip3 check3, of example_next]
    by (simp add: example_next_def ret_def)
qed

text \<open>
  C3. The claim: every error met while a request is handled is returned to the caller
  and none is logged and swallowed; under \<^verbatim>\<open>JwtAuth\<close> a token body that fails to
  decode does not silently give an empty subject. The code does the opposite on purpose:
  \<^verbatim>\<open>getUserNameJwtAuth\<close> returns a \<^verbatim>\<open>string\<close> and nothing else, gives the decoding
  error to \<^verbatim>\<open>log.Printf\<close> and returns \<^verbatim>\<open>""\<close>. In the example the header is
  \<^verbatim>\<open>Bearer h.!!!.s\<close>: the body \<^verbatim>\<open>!!!\<close> does not decode, the error is logged, the
  empty subject goes to \<^verbatim>\<open>Enforce\<close>, the policy allows it on \<^verbatim>\<open>/public\<close>, and the
  middleware returns the nil error of the next handler.
\<close>

theorem C3_decode_error_is_logged_and_swallowed:
  "snd (RawStdEncoding_DecodeString example_lib ''!!!'')
     = Some ''illegal base64 data at input byte 0''
   \<and> GetUserName example_lib (example_config JwtAuth)
         (example_request ''GET'' ''/public'' [''Bearer h.!!!.s''])
       = ([LogPrintf ''token decode failed: illegal base64 data at input byte 0''], Inr [])
   \<and> MiddlewareWithConfig example_lib (example_config JwtAuth) example_next
         (example_request ''GET'' ''/public'' [''Bearer h.!!!.s''])
       = ([LogPrintf ''token decode failed: illegal base64 data at input byte 0'',
           EnforceCall ['''', ''/public'', ''GET'']], Inr None)"
  by (simp add: package_defs example_defs)

text \<open>
  C3 as amended. Under \<^verbatim>\<open>JwtAuth\<close>, when the \<^verbatim>\<open>Authorization\<close> header has a second
  dot-separated piece and that piece fails to decode, the failure is not returned: it is
  given to \<^verbatim>\<open>log.Printf\<close> as \<^verbatim>\<open>token decode failed: \<close> followed by the error, the
  subject is \<^verbatim>\<open>""\<close>, and \<^verbatim>\<open>CheckPermission\<close> returns what \<^verbatim>\<open>Enforce\<close> answers for
  the empty subject, the path and the method. The only error \<^verbatim>\<open>CheckPermission\<close> can
  return is therefore the enforcer's, which it returns as it is.
\<close>

theorem C3_decode_error_gives_empty_subject:
  assumes "AuthType a = JwtAuth"
    and "Split (Get (Header (Request c)) ''Authorization'') (CHR ''.'') = s0 # tokenBody # rest"
    and "RawStdEncoding_DecodeString l tokenBody = (body, Some err)"
  shows "GetUserName l a c = ([LogPrintf (''token decode failed: '' @ err)], Inr [])
         \<and> CheckPermission l a c =
             ([LogPrintf (''token decode failed: '' @ err),
               EnforceCall [[], Path (URL (Request c)), Method (Request c)]],
              Enforce l (Enforcer a) [[], Path (URL (Request c)), Method (Request c)])"
proof -
  have user: "GetUserName l a c = ([LogPrintf (''token decode failed: '' @ err)], Inr [])"
    using assms by (simp add: GetUserName_JwtAuth getUserNameJwtAuth_segments)
  then show ?thesis
    by (simp add: CheckPermission_forwards)
qed

theorem C3_decode_error_gives_empty_subject_witness:
  "AuthType (example_config JwtAuth) = JwtAuth
   \<and> Split (Get (Header (Request (example_request ''GET'' ''/data'' [''Bearer h.!!!.s''])))
              ''Authorization'') (CHR ''.'') = [''Bearer h'', ''!!!'', ''s'']
   \<and> RawStdEncoding_DecodeString example_lib ''!!!''
       = ([], Some ''illegal base64 data at input byte 0'')
   \<and> GetUserName example_lib (example_config JwtAuth)
         (example_request ''GET'' ''/data'' [''Bearer h.!!!.s''])
       = ([LogPrintf ''token decode failed: illegal base64 data at input byte 0''], Inr [])
   \<and> CheckPermission example_lib (example_config JwtAuth)
         (example_request ''GET'' ''/data'' [''Bearer h.!!!.s''])
       = ([LogPrintf ''token decode failed: illegal base64 data at input byte 0'',
           EnforceCall ['''', ''/data'', ''GET'']], Inr (False, None))"
proof -
  have t: "AuthType (example_config JwtAuth) = JwtAuth"
    by (simp add: example_config_def)
  have s: "Split (Get (Header (Request (example_request ''GET'' ''/data'' [''Bearer h.!!!.s''])))
              ''Authorization'') (CHR ''.'') = [''Bearer h'', ''!!!'', ''s'']"
    by (simp add: example_request_def Get_def)
  have d: "RawStdEncoding_DecodeString example_lib ''!!!''
             = ([], Some ''illegal base64 data at input byte 0'')"
    by (simp add: example_lib_def example_RawStdDecode_def)
  show ?thesis
    using t s d C3_decode_error_gives_empty_subject [OF t s d]
    by (simp add: example_defs)
qed


text \<open>
  C4. The claim: for every request \<^verbatim>\<open>GetUserName\<close> returns the subject that the
  configured \<^verbatim>\<open>AuthType\<close> selects, the basic-auth username or the \<^verbatim>\<open>sub\<close> claim of
  the decoded second piece of the token. Under \<^verbatim>\<open>BasicAuth\<close> it does
  (\<open>GetUserName_BasicAuth\<close>), and under \<^verbatim>\<open>JwtAuth\<close> it does when the header has a
  second piece that decodes (\<open>GetUserName_JwtAuth_decoded\<close>). It returns nothing when
  the header has no dot (\<open>GetUserName_returns_iff\<close>): for the opaque bearer token of
  the example, \<^verbatim>\<open>GetUserName\<close> panics at \<^verbatim>\<open>splitToken[1]\<close>.
\<close>

theorem C4_GetUserName_JwtAuth_panics_on_opaque_token:
  "GetUserName l (example_config JwtAuth)
       (example_request ''GET'' ''/data'' [''Bearer 2YotnFZFEjr1zCsicMWpAA''])
     = ([], Inl (IndexOutOfRange 1 1))"
  by (simp add: package_defs example_config_def example_request_def)

text \<open>
  C5. When the configured skipper returns true for a request, the middleware is the next
  handler on that request: its events and its result are those of \<^verbatim>\<open>next(c)\<close> and
  nothing else, so \<^verbatim>\<open>CheckPermission\<close> is not called and no call of \<^verbatim>\<open>Enforce\<close> is
  made. This holds whatever the libraries, the enforcer and the authentication type are:
  the request proceeds regardless of policy.
\<close>

theorem C5_skipped_request_goes_to_next:
  assumes "Skipper a = Some skipper"
    and "skipper c"
  shows "MiddlewareWithConfig l a next c = next c
         \<and> (\<forall>l' ce t. MiddlewareWithConfig l' (a\<lparr>Enforcer := ce, AuthType := t\<rparr>) next c = next c)"
  using assms by (simp add: MiddlewareWithConfig_skipped skips_def)

theorem C5_skipped_request_goes_to_next_witness:
  "Skipper ((example_config JwtAuth)\<lparr>Skipper := Some (\<lambda>c. Path (URL (Request c)) = ''/health'')\<rparr>)
     = Some (\<lambda>c. Path (URL (Request c)) = ''/health'')
   \<and> Path (URL (Request (example_request ''GET'' ''/health'' []))) = ''/health''
   \<and> MiddlewareWithConfig example_lib
        ((example_config JwtAuth)\<lparr>Skipper := Some (\<lambda>c. Path (URL (Request c)) = ''/health'')\<rparr>)
        example_next (example_request ''GET'' ''/health'' [])
      = ([], Inr None)"
proof -
  have s: "Skipper ((example_config JwtAuth)\<lparr>Skipper := Some (\<lambda>c. Path (URL (Request c)) = ''/health'')\<rparr>)
             = Some (\<lambda>c. Path (URL (Request c)) = ''/health'')"
    by simp
  have p: "Path (URL (Request (example_request ''GET'' ''/health'' []))) = ''/health''"
    by (simp add: example_request_def)
  show ?thesis
    using s p C5_skipped_request_goes_to_next [OF s p, of example_lib example_next]
    by (simp add: example_next_def ret_def)
qed

text \<open>
  C6. \<^verbatim>\<open>CheckPermission\<close>, run on the memory that holds the configuration behind its
  receiver, the request and the package variable:
  \<^item> two invocations on memories that agree on the authentication type, the enforcer,
    the first value of the \<^verbatim>\<open>Authorization\<close> header (the only header that basic
    authentication and the token extraction read), the URL path and the method give the
    same events and the same outcome, the pair \<^verbatim>\<open>(bool, error)\<close> or the panic,
    whatever else differs between the two memories;
  \<^item> an invocation leaves the memory exactly as it found it: no field of the
    configuration, of the request or of the package variable is written;
  \<^item> hence a second invocation, run on what the first one left, returns the same pair
    again and logs the same lines.
  The enforcer is asked through the library, which answers for the enforcer as it is at
  the call: the same policy and roles for both invocations.
\<close>

theorem C6_CheckPermission_deterministic:
  assumes "AuthType (receiver m1) = AuthType (receiver m2)"
    and "Enforcer (receiver m1) = Enforcer (receiver m2)"
    and "Get (Header (Request (echo_Context m1))) ''Authorization''
           = Get (Header (Request (echo_Context m2))) ''Authorization''"
    and "Path (URL (Request (echo_Context m1))) = Path (URL (Request (echo_Context m2)))"
    and "Method (Request (echo_Context m1)) = Method (Request (echo_Context m2))"
  shows "fst (CheckPermission_method l m1) = fst (CheckPermission_method l m2)
         \<and> snd (CheckPermission_method l m1) = m1
         \<and> snd (CheckPermission_method l m2) = m2
         \<and> twice (CheckPermission_method l) m1 =
             (case fst (CheckPermission_method l m1) of
                (ev, Inl p) \<Rightarrow> ((ev, Inl p), m1)
              | (ev, Inr r) \<Rightarrow> ((ev @ ev, Inr (r, r)), m1))"
proof -
  have same: "fst (CheckPermission_method l m1) = fst (CheckPermission_method l m2)"
    using CheckPermission_reads_only [OF assms] by (simp add: CheckPermission_method_eq)
  have kept: "snd (CheckPermission_method l m) = m" for m :: "'a memory"
    by (simp add: CheckPermission_method_eq)
  from same kept [of m1] kept [of m2] twice_unchanged [of "CheckPermission_method l" m1, OF kept]
  show ?thesis by simp
qed

theorem C6_CheckPermission_deterministic_witness:
  "AuthType (receiver (example_memory (example_config BasicAuth) example_busy_request))
     = AuthType (receiver (example_memory
         ((example_config BasicAuth)\<lparr>Skipper := Some (\<lambda>c. True)\<rparr>)
         (example_request ''GET'' ''/data'' [''Basic YWxpY2U6c2VjcmV0'', ''ignored''])))
   \<and> Get (Header (Request (echo_Context
         (example_memory (example_config BasicAuth) example_busy_request)))) ''Authorization''
     = Get (Header (Request (echo_Context (example_memory
         ((example_config BasicAuth)\<lparr>Skipper := Some (\<lambda>c. True)\<rparr>)
         (example_request ''GET'' ''/data'' [''Basic YWxpY2U6c2VjcmV0'', ''ignored'']))))) ''Authorization''
   \<and> fst (CheckPermission_method example_lib
         (example_memory (example_config BasicAuth) example_busy_request))
     = ([EnforceCall [''alice'', ''/data'', ''GET'']], Inr (True, None))
   \<and> fst (CheckPermission_method example_lib (example_memory
         ((example_config BasicAuth)\<lparr>Skipper := Some (\<lambda>c. True)\<rparr>)
         (example_request ''GET'' ''/data'' [''Basic YWxpY2U6c2VjcmV0'', ''ignored''])))
     = ([EnforceCall [''alice'', ''/data'', ''GET'']], Inr (True, None))
   \<and> snd (CheckPermission_method example_lib
         (example_memory (example_config BasicAuth) example_busy_request))
     = example_memory (example_config BasicAuth) example_busy_request
   \<and> twice (CheckPermission_method example_lib)
         (example_memory (example_config BasicAuth) example_busy_request)
     = (([EnforceCall [''alice'', ''/data'', ''GET''], EnforceCall [''alice'', ''/data'', ''GET'']],
         Inr ((True, None), (True, None))),
        example_memory (example_config BasicAuth) example_busy_request)"
proof -
  let ?m1 = "example_memory (example_config BasicAuth) example_busy_request"
  let ?m2 = "example_memory ((example_config BasicAuth)\<lparr>Skipper := Some (\<lambda>c. True)\<rparr>)
               (example_request ''GET'' ''/data'' [''Basic YWxpY2U6c2VjcmV0'', ''ignored''])"
  have t: "AuthType (receiver ?m1) = AuthType (receiver ?m2)"
    and e: "Enforcer (receiver ?m1) = Enforcer (receiver ?m2)"
    by (simp_all add: example_memory_def)
  have h: "Get (Header (Request (echo_Context ?m1))) ''Authorization''
             = Get (Header (Request (echo_Context ?m2))) ''Authorization''"
    by (simp add: example_memory_def example_busy_request_def example_request_def Get_def)
  have p: "Path (URL (Request (echo_Context ?m1))) = Path (URL (Request (echo_Context ?m2)))"
    and m: "Method (Request (echo_Context ?m1)) = Method (Request (echo_Context ?m2))"
    by (simp_all add: example_memory_def example_busy_request_def example_request_def)
  have v: "fst (CheckPermission_method example_lib ?m2)
             = ([EnforceCall [''alice'', ''/data'', ''GET'']], Inr (True, None))"
    by (simp add: CheckPermission_method_eq example_memory_def package_defs example_defs)
  show ?thesis
    using t h v C6_CheckPermission_deterministic [OF t e h p m, of example_lib]
    by simp
qed

text \<open>
  C7. The claim: subject extraction is total; under \<^verbatim>\<open>JwtAuth\<close> the index into the
  dot-split token is always in bounds, also when the \<^verbatim>\<open>Authorization\<close> header has no
  dot. The code does not check the length of \<^verbatim>\<open>splitToken\<close> before it reads
  \<^verbatim>\<open>splitToken[1]\<close>. For a request with no \<^verbatim>\<open>Authorization\<close> header the token is
  \<^verbatim>\<open>""\<close>, \<^verbatim>\<open>strings.Split\<close> gives the one-element slice \<^verbatim>\<open>[""]\<close>, and
  \<^verbatim>\<open>GetUserName\<close> panics with \<^verbatim>\<open>index out of range [1] with length 1\<close> instead of
  returning a string.
\<close>

theorem C7_GetUserName_JwtAuth_panics_without_header:
  "GetUserName l (example_config JwtAuth) (example_request ''GET'' ''/data'' [])
     = ([], Inl (IndexOutOfRange 1 1))"
  by (simp add: package_defs example_config_def example_request_def)

text \<open>
  C8. The claim: a request without usable credentials is not rejected by the adapter
  itself; the empty subject goes to \<^verbatim>\<open>Enforce\<close> and the enforcer's policy for it
  decides. This holds under \<^verbatim>\<open>BasicAuth\<close>, for an authentication type that is neither
  constant, and under \<^verbatim>\<open>JwtAuth\<close> when the header has a second piece
  (\<open>anonymous_subject_is_forwarded\<close>). The anonymous request under \<^verbatim>\<open>JwtAuth\<close>,
  the one with no \<^verbatim>\<open>Authorization\<close> header, is not forwarded: the example policy allows
  the empty subject to read \<^verbatim>\<open>/public\<close>, yet the middleware panics before it asks the
  enforcer and the next handler never runs.
\<close>

theorem C8_anonymous_JwtAuth_request_panics:
  "MiddlewareWithConfig l (example_config JwtAuth) next
       (example_request ''GET'' ''/public'' [])
     = ([], Inl (IndexOutOfRange 1 1))"
  by (simp add: package_defs example_config_def example_request_def)

text \<open>
  C9. \<^verbatim>\<open>Middleware(ce)\<close> is \<^verbatim>\<open>MiddlewareWithConfig\<close> on the configuration that has
  the enforcer \<^verbatim>\<open>ce\<close>, basic authentication and either no skipper or the default
  skipper, and a nil skipper is the same as the skipper of \<^verbatim>\<open>DefaultConfig\<close>. With a
  nil skipper no request is skipped: every request goes through \<^verbatim>\<open>CheckPermission\<close>
  and is answered from what it returns. For \<^verbatim>\<open>Middleware(ce)\<close> this means that every
  request makes exactly one call of \<^verbatim>\<open>Enforce\<close> on \<^verbatim>\<open>ce\<close>, with the basic-auth
  username, the path and the method, and that the next handler runs only when the
  enforcer allows. That the default skipper skips nothing is echo's
  \<^verbatim>\<open>middleware.DefaultSkipper\<close>, which returns false.
\<close>

theorem C9_Middleware_is_MiddlewareWithConfig_with_defaults:
  fixes l :: "'e lib" and a :: "'e Config"
  shows "Middleware l ce
     = MiddlewareWithConfig l \<lparr>Skipper = None, Enforcer = ce, AuthType = BasicAuth\<rparr>
   \<and> Middleware l ce
     = MiddlewareWithConfig l \<lparr>Skipper = Some DefaultSkipper, Enforcer = ce, AuthType = BasicAuth\<rparr>
   \<and> MiddlewareWithConfig l (a\<lparr>Skipper := None\<rparr>)
     = MiddlewareWithConfig l (a\<lparr>Skipper := Skipper (DefaultConfig :: 'e Config)\<rparr>)
   \<and> MiddlewareWithConfig l (a\<lparr>Skipper := None\<rparr>) next c
     = andThen (CheckPermission l a c) (\<lambda>(pass, err).
         if err = None \<and> pass then next c
         else (case err of
                 Some msg \<Rightarrow> ret (Some (HTTPError 500 msg))
               | None \<Rightarrow> ret (Some (HTTPError 403 ''Forbidden''))))
   \<and> Middleware l ce next c
     = (let rvals = [fst (Request_BasicAuth l (Request c)), Path (URL (Request c)),
                     Method (Request c)]
        in case Enforce l ce rvals of
             Inl p \<Rightarrow> ([EnforceCall rvals], Inl p)
           | Inr (pass, err) \<Rightarrow>
               (case err of
                  Some msg \<Rightarrow> ([EnforceCall rvals], Inr (Some (HTTPError 500 msg)))
                | None \<Rightarrow>
                    if pass then (EnforceCall rvals # fst (next c), snd (next c))
                    else ([EnforceCall rvals], Inr (Some (HTTPError 403 ''Forbidden'')))))"
proof -
  have nil: "MiddlewareWithConfig l (b\<lparr>Skipper := None\<rparr>)
               = MiddlewareWithConfig l (b\<lparr>Skipper := Some DefaultSkipper\<rparr>)" for b :: "'e Config"
    by (intro ext) (simp add: MiddlewareWithConfig_def DefaultConfig_def)
  have mw: "Middleware l ce
              = MiddlewareWithConfig l \<lparr>Skipper = Some DefaultSkipper, Enforcer = ce, AuthType = BasicAuth\<rparr>"
    by (simp add: Middleware_def DefaultConfig_def BasicAuth_def)
  have none: "MiddlewareWithConfig l \<lparr>Skipper = None, Enforcer = ce, AuthType = BasicAuth\<rparr>
          = MiddlewareWithConfig l \<lparr>Skipper = Some DefaultSkipper, Enforcer = ce, AuthType = BasicAuth\<rparr>"
    using nil [of "\<lparr>Skipper = None, Enforcer = ce, AuthType = BasicAuth\<rparr>"] by simp
  have enforced: "MiddlewareWithConfig l (b\<lparr>Skipper := None\<rparr>) next c
     = andThen (CheckPermission l b c) (\<lambda>(pass, err).
         if err = None \<and> pass then next c
         else (case err of
                 Some msg \<Rightarrow> ret (Some (HTTPError 500 msg))
               | None \<Rightarrow> ret (Some (HTTPError 403 ''Forbidden''))))" for b :: "'e Config"
  proof -
    have "\<not> skips (b\<lparr>Skipper := None\<rparr>) c"
      by (simp add: skips_def DefaultSkipper_def)
    then have "MiddlewareWithConfig l (b\<lparr>Skipper := None\<rparr>) next c
       = andThen (CheckPermission l b c) (\<lambda>(pass, err).
           if err = None \<and> pass then next c
           else (case err of
                   Some msg \<Rightarrow> ret (Some (NewHTTPError StatusInternalServerError msg))
                 | None \<Rightarrow> ret (Some ErrForbidden)))"
      by (simp add: MiddlewareWithConfig_not_skipped CheckPermission_Skipper)
    then show ?thesis
      unfolding NewHTTPError_def ErrForbidden_def StatusForbidden_def
        StatusInternalServerError_def .
  qed
  have basic: "Middleware l ce next c
     = (let rvals = [fst (Request_BasicAuth l (Request c)), Path (URL (Request c)),
                     Method (Request c)]
        in case Enforce l ce rvals of
             Inl p \<Rightarrow> ([EnforceCall rvals], Inl p)
           | Inr (pass, err) \<Rightarrow>
               (case err of
                  Some msg \<Rightarrow> ([EnforceCall rvals], Inr (Some (HTTPError 500 msg)))
                | None \<Rightarrow>
                    if pass then (EnforceCall rvals # fst (next c), snd (next c))
                    else ([EnforceCall rvals], Inr (Some (HTTPError 403 ''Forbidden'')))))"
  proof -
    let ?b = "\<lparr>Skipper = None, Enforcer = ce, AuthType = BasicAuth\<rparr> :: 'e Config"
    have user: "GetUserName l ?b c = ([], Inr (fst (Request_BasicAuth l (Request c))))"
      by (simp add: GetUserName_BasicAuth)
    have check: "CheckPermission l ?b c
        = ([EnforceCall [fst (Request_BasicAuth l (Request c)), Path (URL (Request c)),
                         Method (Request c)]],
           Enforce l ce [fst (Request_BasicAuth l (Request c)), Path (URL (Request c)),
                         Method (Request c)])"
      using CheckPermission_forwards [OF user] by simp
    have "Middleware l ce next c = MiddlewareWithConfig l (?b\<lparr>Skipper := None\<rparr>) next c"
      using mw none by simp
    also have "\<dots> = andThen (CheckPermission l ?b c) (\<lambda>(pass, err).
         if err = None \<and> pass then next c
         else (case err of
                 Some msg \<Rightarrow> ret (Some (HTTPError 500 msg))
               | None \<Rightarrow> ret (Some (HTTPError 403 ''Forbidden''))))"
      by (rule enforced)
    finally show ?thesis
      by (cases "next c")
         (simp add: check andThen_def ret_def Let_def
           split: sum.splits option.splits prod.splits)
  qed
  from mw none nil [of a] enforced [of a] basic show ?thesis
    by (simp add: DefaultConfig_def)
qed

theorem C9_Middleware_is_MiddlewareWithConfig_with_defaults_witness:
  "Middleware example_lib (Some example_policy) example_next
       (example_request ''GET'' ''/data'' [])
     = ([EnforceCall ['''', ''/data'', ''GET'']], Inr (Some (HTTPError 403 ''Forbidden'')))
   \<and> Middleware example_lib (Some example_policy) example_next
       (example_request ''GET'' ''/data'' [''Basic YWxpY2U6c2VjcmV0''])
     = MiddlewareWithConfig example_lib (example_config BasicAuth) example_next
       (example_request ''GET'' ''/data'' [''Basic YWxpY2U6c2VjcmV0''])"
  using C9_Middleware_is_MiddlewareWithConfig_with_defaults
      [of example_lib "Some example_policy" "example_config BasicAuth" example_next
          "example_request ''GET'' ''/data'' []"]
    C9_Middleware_is_MiddlewareWithConfig_with_defaults
      [of example_lib "Some example_policy" "example_config BasicAuth" example_next
          "example_request ''GET'' ''/data'' [''Basic YWxpY2U6c2VjcmV0'']"]
  by (simp add: package_defs example_defs)

end
